theory Spec2Isabelle
  imports Main "HOL-Library.Word"
begin

section \<open>Data model of \<open>api/upload.go\<close>\<close>

text \<open>
  Go strings are byte sequences: \<open>string\<close> (a list of 8-bit \<open>char\<close>s).  A Go
  \<open>error\<close> value is modelled by its message; a nil error is \<open>None\<close> of
  \<open>error option\<close>.  A Go call either returns or panics (nil dereference, index out of
  range): \<open>'a outcome\<close>.
\<close>

datatype error = Error string

datatype 'a outcome = Panic | Return 'a

text \<open>\<open>io.Reader\<close>: a non-nil reader is the bytes it will deliver; the interface value
  nil is \<open>None\<close> of \<open>io_Reader option\<close>.\<close>

datatype io_Reader = Reader string

text \<open>\<open>auth.CookieCredentials\<close> belongs to another package and is opaque here.\<close>

datatype CookieCredentials = CookieCredentials "string list"

record UploadOptions =
  Stream :: "io_Reader option"
  FileSize :: "64 word"
  Name :: string
  Timestamp :: "64 word"
  AlbumId :: string
  AlbumName :: string

text \<open>
  \<open>*UploadOptions\<close> is a pointer: the caller and the \<open>Upload\<close> built from it share
  one object.  The store maps addresses to the objects they hold; the nil pointer is
  \<open>None\<close>.  Dereferencing nil panics in Go; an address outside the store does not
  occur in Go and is treated the same way.
\<close>

type_synonym addr = nat
type_synonym store = "addr \<rightharpoonup> UploadOptions"

definition deref :: "store \<Rightarrow> addr option \<Rightarrow> UploadOptions option" where
  "deref s p = (case p of None \<Rightarrow> None | Some a \<Rightarrow> s a)"

record Upload =
  Options :: "addr option"
  Credentials :: CookieCredentials
  url :: string
  idToMoveIntoAlbum :: string

record UploadResult =
  Uploaded :: bool
  ImageID :: string
  ImageUrl :: string
  AlbumID :: string

section \<open>Identifier extraction\<close>

text \<open>
  \<open>RegexUploadedImageURL\<close> is
  \<^verbatim>\<open>^https:\/\/lh3\.googleusercontent\.com\/([\w-]+)$\<close>.
  In Go's RE2 syntax \<^verbatim>\<open>\w\<close> is the ASCII class \<^verbatim>\<open>[0-9A-Za-z_]\<close>, \<^verbatim>\<open>\/\<close> and
  \<^verbatim>\<open>\.\<close> are the literal characters, and without the \<^verbatim>\<open>m\<close> flag \<^verbatim>\<open>^\<close> and
  \<^verbatim>\<open>$\<close> match only at the two ends of the text.  The class holds ASCII characters
  only, so a byte of a multi-byte rune (or an invalid byte) never matches it and the
  match can be computed byte by byte.
\<close>

definition word_char :: "char \<Rightarrow> bool" where
  "word_char c =
     (let n = (of_char c :: nat)
      in (48 \<le> n \<and> n \<le> 57) \<or> (65 \<le> n \<and> n \<le> 90) \<or> n = 95 \<or> (97 \<le> n \<and> n \<le> 122))"

definition id_char :: "char \<Rightarrow> bool" where
  "id_char c = (word_char c \<or> c = CHR ''-'')"

definition url_prefix :: string where
  "url_prefix = ''https://lh3.googleusercontent.com/''"

fun strip_prefix :: "string \<Rightarrow> string \<Rightarrow> string option" where
  "strip_prefix [] s = Some s"
| "strip_prefix (p # ps) [] = None"
| "strip_prefix (p # ps) (c # cs) = (if p = c then strip_prefix ps cs else None)"

text \<open>
  \<open>RegexUploadedImageURL.FindStringSubmatch\<close>: nil (the empty slice) when the text does
  not match, otherwise the whole match followed by the text of the one capture group.
\<close>

definition FindStringSubmatch :: "string \<Rightarrow> string list" where
  "FindStringSubmatch URL =
     (case strip_prefix url_prefix URL of
        None \<Rightarrow> []
      | Some rest \<Rightarrow> if rest \<noteq> [] \<and> list_all id_char rest then [URL, rest] else [])"

text \<open>Slice indexing \<open>xs[i]\<close>: panics when \<open>i\<close> is out of range.\<close>

definition index :: "'a list \<Rightarrow> nat \<Rightarrow> 'a outcome" where
  "index xs i = (if i < length xs then Return (xs ! i) else Panic)"

definition getImageIDFromURL :: "string \<Rightarrow> (string \<times> error option) outcome" where
  "getImageIDFromURL URL =
     (let matches = FindStringSubmatch URL
      in if length matches \<noteq> 2
         then Return ('''', Some (Error ''url doesn't contain the image id''))
         else (case index matches 1 of
                 Panic \<Rightarrow> Panic
               | Return m \<Rightarrow> Return (m, None)))"

text \<open>\<open>UploadResult.URLString\<close>: \<^verbatim>\<open>fmt.Sprintf("https://lh3.googleusercontent.com/%s", ur.ImageID)\<close>.\<close>

definition URLString :: "UploadResult \<Rightarrow> string" where
  "URLString ur = ''https://lh3.googleusercontent.com/'' @ ImageID ur"

section \<open>Constructing an upload\<close>

text \<open>
  \<open>time.Time\<close>, as far as \<open>NewUpload\<close> observes it: the text \<open>String()\<close> returns and
  the seconds \<open>Unix()\<close> returns.
\<close>

record Time =
  Time_String :: string
  Time_Unix :: "64 word"

text \<open>
  \<open>NewUpload\<close>.  The two arguments \<open>now1\<close> and \<open>now2\<close> are what the two calls of
  \<open>time.Now()\<close> return, should they be reached.  \<open>options\<close> is a pointer: the
  assignments to \<open>options.Name\<close> and \<open>options.Timestamp\<close> write to the object the
  caller holds, so the store is returned updated.  The result is Go's pair
  \<open>(*Upload, error)\<close>.  \<open>int64\<close> comparisons are signed (\<open>sint\<close>).
\<close>

definition NewUpload ::
  "Time \<Rightarrow> Time \<Rightarrow> addr option \<Rightarrow> CookieCredentials \<Rightarrow> store
     \<Rightarrow> (Upload option \<times> error option) outcome \<times> store" where
  "NewUpload now1 now2 options credentials s =
     (case options of
        None \<Rightarrow> (Panic, s)
      | Some a \<Rightarrow>
         (case s a of
            None \<Rightarrow> (Panic, s)
          | Some opts \<Rightarrow>
              if Stream opts = None
              then (Return (None, Some (Error ''the stream of the UploadOptions is nil'')), s)
              else if sint (FileSize opts) \<le> 0
              then (Return (None, Some (Error ''the fileSize of the UploadOptions is <= 0'')), s)
              else
                let opts1 = (if Name opts = '''' then opts\<lparr>Name := Time_String now1\<rparr> else opts);
                    opts2 = (if sint (Timestamp opts1) < 0
                             then opts1\<lparr>Timestamp := Time_Unix now2\<rparr> else opts1)
                in (Return (Some \<lparr>Options = options, Credentials = credentials,
                                    url = '''', idToMoveIntoAlbum = ''''\<rparr>, None),
                    s(a \<mapsto> opts2))))"

section \<open>The upload workflow\<close>

text \<open>
  Modelled from the spec: the methods \<open>requestUploadURL\<close>, \<open>uploadFile\<close>,
  \<open>enablePhoto\<close>, \<open>moveToAlbum\<close> and \<open>createAlbum\<close> of \<open>Upload\<close> are defined in
  files of the package that are not part of the sources at hand.  Each one performs a
  remote request, so what it returns is a parameter of the model.  A method may read
  its receiver and the options the receiver points to.  Following the spec (data model,
  UploadWorkflow), the only state they write is the upload-target URL, set by step 1,
  and the image-move identifier, set by step 3: \<open>requestUploadURL\<close> yields an error or
  the new \<open>url\<close>; \<open>uploadFile\<close> an error or the upload token; \<open>enablePhoto\<close>, given
  the token, an error or the image URL together with the new \<open>idToMoveIntoAlbum\<close>;
  \<open>moveToAlbum\<close>, given the album id, an optional error; \<open>createAlbum\<close>, given the
  album name, an error or the id of the created album.
\<close>

record remote =
  requestUploadURL :: "Upload \<Rightarrow> store \<Rightarrow> error + string"
  uploadFile :: "Upload \<Rightarrow> store \<Rightarrow> error + string"
  enablePhoto :: "Upload \<Rightarrow> store \<Rightarrow> string \<Rightarrow> error + (string \<times> string)"
  moveToAlbum :: "Upload \<Rightarrow> store \<Rightarrow> string \<Rightarrow> error option"
  createAlbum :: "Upload \<Rightarrow> store \<Rightarrow> string \<Rightarrow> error + string"

text \<open>
  What \<open>Upload\<close> does besides returning: the remote methods it invokes, in order, and
  the lines it prints with \<open>log.Println\<close>.  The store of option objects is part of the
  state as well.
\<close>

datatype call =
  RequestUploadURL | UploadFile | EnablePhoto string | MoveToAlbum string | CreateAlbum string

record world =
  heap :: store
  requests :: "call list"
  stderr :: "string list"

definition invoke :: "call \<Rightarrow> world \<Rightarrow> world" where
  "invoke c w = w\<lparr>requests := requests w @ [c]\<rparr>"

definition Println :: "string \<Rightarrow> world \<Rightarrow> world" where
  "Println msg w = w\<lparr>stderr := stderr w @ [msg]\<rparr>"

text \<open>
  \<open>Upload.Upload\<close>.  The receiver \<open>u\<close> is returned as the steps leave it.  A field
  that a Go struct literal omits holds the zero value (\<open>False\<close>, the empty string).
  The value \<open>moveToAlbum\<close> returns is dropped, as in the source.
\<close>

definition Upload_Upload ::
  "remote \<Rightarrow> Upload \<Rightarrow> world \<Rightarrow> (UploadResult \<times> error option) outcome \<times> Upload \<times> world" where
  "Upload_Upload api u w =
     (let w1 = invoke RequestUploadURL w in
      (case requestUploadURL api u (heap w1) of
        Inl err \<Rightarrow>
          (Return (\<lparr>Uploaded = False, ImageID = [], ImageUrl = [], AlbumID = []\<rparr>,
                   Some (Error ''can't get an upload url'')), u, w1)
      | Inr target \<Rightarrow>
         (let u1 = u\<lparr>url := target\<rparr>; w2 = invoke UploadFile w1 in
          (case uploadFile api u1 (heap w2) of
            Inl err \<Rightarrow>
              (Return (\<lparr>Uploaded = False, ImageID = [], ImageUrl = [], AlbumID = []\<rparr>,
                       Some (Error ''can't upload file to the url obtained from the previously request'')),
               u1, w2)
          | Inr token \<Rightarrow>
             (let w3 = invoke (EnablePhoto token) w2 in
              (case enablePhoto api u1 (heap w3) token of
                Inl err \<Rightarrow>
                  (Return (\<lparr>Uploaded = True, ImageID = [], ImageUrl = [], AlbumID = []\<rparr>,
                           Some err),
                   u1,
                   Println ''[WARNING] The file has been uploaded, but the image url in the reply was not found. The image may not appear.'' w3)
              | Inr enabled \<Rightarrow>
                 (let uploadedImageURL = fst enabled;
                      u2 = u1\<lparr>idToMoveIntoAlbum := snd enabled\<rparr> in
                  (case getImageIDFromURL uploadedImageURL of
                    Panic \<Rightarrow> (Panic, u2, w3)
                  | Return extracted \<Rightarrow>
                      (case snd extracted of
                         Some err \<Rightarrow>
                           (Return (\<lparr>Uploaded = True, ImageID = [],
                                     ImageUrl = uploadedImageURL, AlbumID = []\<rparr>, Some err),
                            u2,
                            Println ''[WARNING] the file has been uploaded, but the image URL does not contain its id. The image may not appear.'' w3)
                       | None \<Rightarrow>
                          (let uploadedImageID = fst extracted in
                           (case deref (heap w3) (Options u2) of
                             None \<Rightarrow> (Panic, u2, w3)
                           | Some opts \<Rightarrow>
                              (let w4 = (if AlbumId opts \<noteq> []
                                         then (let dropped = moveToAlbum api u2 (heap w3) (AlbumId opts)
                                               in invoke (MoveToAlbum (AlbumId opts)) w3)
                                         else w3) in
                               if AlbumName opts \<noteq> []
                               then
                                (let w5 = invoke (CreateAlbum (AlbumName opts)) w4 in
                                 (case createAlbum api u2 (heap w5) (AlbumName opts) of
                                   Inl err \<Rightarrow>
                                     (Return (\<lparr>Uploaded = True, ImageID = uploadedImageID,
                                               ImageUrl = uploadedImageURL, AlbumID = []\<rparr>,
                                              Some err),
                                      u2,
                                      Println ''[WARNING] the file has been uploaded, but the album hasn't been created.'' w5)
                                 | Inr createdAlbumID \<Rightarrow>
                                     (Return (\<lparr>Uploaded = True, ImageID = uploadedImageID,
                                               ImageUrl = uploadedImageURL,
                                               AlbumID = createdAlbumID\<rparr>, None),
                                      u2, w5)))
                               else
                                 (Return (\<lparr>Uploaded = True, ImageID = uploadedImageID,
                                           ImageUrl = uploadedImageURL, AlbumID = []\<rparr>, None),
                                  u2, w4)))))))))))))"

section \<open>Concrete uploads\<close>

text \<open>
  A mock transport on which every step succeeds, an upload bound to the options at
  address 0, and two states of the world: one whose options name no album, one whose
  options ask for the album \<open>Holidays\<close> to be created.
\<close>

definition photo_options :: UploadOptions where
  "photo_options =
     \<lparr>Stream = Some (Reader ''JPEG''), FileSize = 4, Name = ''photo.jpg'',
      Timestamp = 1500000000000, AlbumId = [], AlbumName = []\<rparr>"

definition mock_remote :: remote where
  "mock_remote =
     \<lparr>requestUploadURL = (\<lambda>u s. Inr ''https://photos.example/upload/1''),
      uploadFile = (\<lambda>u s. Inr ''token-1''),
      enablePhoto = (\<lambda>u s token. Inr (''https://lh3.googleusercontent.com/AbC-123_xyz'', ''move-1'')),
      moveToAlbum = (\<lambda>u s albumId. None),
      createAlbum = (\<lambda>u s name. Inr ''ALBUM123'')\<rparr>"

definition mock_upload :: Upload where
  "mock_upload =
     \<lparr>Options = Some 0, Credentials = CookieCredentials [], url = [], idToMoveIntoAlbum = []\<rparr>"

definition mock_world :: world where
  "mock_world = \<lparr>heap = [0 \<mapsto> photo_options], requests = [], stderr = []\<rparr>"

definition album_world :: world where
  "album_world =
     \<lparr>heap = [0 \<mapsto> photo_options\<lparr>AlbumName := ''Holidays''\<rparr>], requests = [], stderr = []\<rparr>"

definition mock_now :: Time where
  "mock_now = \<lparr>Time_String = ''2026-10-30 12:00:00 +0000 UTC'', Time_Unix = 1793361600\<rparr>"

section \<open>Properties of identifier extraction\<close>

lemma strip_prefix_Some_iff: "strip_prefix p s = Some r \<longleftrightarrow> s = p @ r"
  by (induction p s rule: strip_prefix.induct) auto

lemma strip_prefix_append: "strip_prefix p (p @ r) = Some r"
  by (simp add: strip_prefix_Some_iff)

text \<open>The match, read off the pattern: the literal prefix, then one or more characters
  of the class, then the end of the text.\<close>

lemma FindStringSubmatch_eq:
  "FindStringSubmatch URL =
     (if \<exists>rest. URL = url_prefix @ rest \<and> rest \<noteq> [] \<and> list_all id_char rest
      then [URL, drop (length url_prefix) URL] else [])"
  by (auto simp: FindStringSubmatch_def strip_prefix_Some_iff strip_prefix_append
           split: option.splits)

lemma getImageIDFromURL_ok_iff:
  "getImageIDFromURL URL = Return (i, None) \<longleftrightarrow>
     URL = url_prefix @ i \<and> i \<noteq> [] \<and> list_all id_char i"
  by (auto simp: getImageIDFromURL_def FindStringSubmatch_eq index_def Let_def)

lemma getImageIDFromURL_total: "getImageIDFromURL URL \<noteq> Panic"
  by (simp add: getImageIDFromURL_def FindStringSubmatch_eq index_def Let_def)

lemma getImageIDFromURL_fails:
  "(\<forall>i. getImageIDFromURL URL \<noteq> Return (i, None)) \<Longrightarrow>
     getImageIDFromURL URL = Return ([], Some (Error ''url doesn't contain the image id''))"
  by (auto simp: getImageIDFromURL_def FindStringSubmatch_eq index_def Let_def
           split: if_splits)

lemma mock_extraction:
  "getImageIDFromURL ''https://lh3.googleusercontent.com/AbC-123_xyz'' =
     Return (''AbC-123_xyz'', None)"
  by (simp add: getImageIDFromURL_ok_iff url_prefix_def id_char_def word_char_def)

text \<open>The class \<^verbatim>\<open>[\w-]\<close>, enumerated over all 256 byte values.\<close>

lemma id_char_class:
  "filter id_char (map char_of [0 ..< 256 :: nat]) =
     ''-0123456789ABCDEFGHIJKLMNOPQRSTUVWXYZ_abcdefghijklmnopqrstuvwxyz''"
  by code_simp

lemma length_url_prefix: "length url_prefix = 34"
  by (simp add: url_prefix_def)

lemma last_url_prefix: "url_prefix ! 33 = CHR ''/''"
  by (simp add: url_prefix_def)

lemma slash_not_id_char: "\<not> id_char CHR ''/''"
  by (simp add: id_char_def word_char_def)

text \<open>
  The pattern is anchored at both ends: a text that matches no longer matches once
  something is put in front of it, or once something holding a character outside the
  class (a \<open>/\<close> of a path, the \<open>?\<close> of a query) is put behind it.
\<close>

lemma extraction_rejects_extension:
  assumes ok: "getImageIDFromURL URL = Return (i, None)"
    and ext: "p \<noteq> [] \<or> (\<exists>c \<in> set s. \<not> id_char c)"
  shows "getImageIDFromURL (p @ URL @ s) =
           Return ([], Some (Error ''url doesn't contain the image id''))"
proof (rule getImageIDFromURL_fails, rule allI, rule notI)
  fix j
  assume "getImageIDFromURL (p @ URL @ s) = Return (j, None)"
  then have eq: "p @ URL @ s = url_prefix @ j" and all: "list_all id_char j"
    by (simp_all add: getImageIDFromURL_ok_iff)
  from ok have URL: "URL = url_prefix @ i"
    by (simp add: getImageIDFromURL_ok_iff)
  show False
  proof (cases "p = []")
    case True
    with eq URL have "j = i @ s" by simp
    with all have "list_all id_char s" by simp
    with ext True show False by (auto simp: list_all_iff)
  next
    case False
    then have pos: "0 < length p" by simp
    from eq have "length (p @ URL @ s) = length (url_prefix @ j)" by simp
    with URL have len: "length j = length p + length i + length s" by simp
    have "(p @ URL @ s) ! (length p + 33) = CHR ''/''"
      by (simp add: URL nth_append length_url_prefix last_url_prefix)
    moreover have "(url_prefix @ j) ! (length p + 33) = j ! (length p - 1)"
      using pos by (simp add: nth_append length_url_prefix)
    ultimately have "j ! (length p - 1) = CHR ''/''"
      using eq by simp
    moreover from pos len have "length p - 1 < length j" by arith
    ultimately have "\<not> list_all id_char j"
      using slash_not_id_char by (auto simp: list_all_length)
    with all show False by simp
  qed
qed

text \<open>
  Claim C9.  Extraction applied to \<open>https://lh3.googleusercontent.com/AbC-123_xyz\<close>
  returns the identifier \<open>AbC-123_xyz\<close> and a nil error.  For every text, extraction
  returns and does not panic; whenever the number of submatches is not two (no match),
  it returns the empty identifier and the error \<open>url doesn't contain the image id\<close>.
\<close>

theorem getImageIDFromURL_example_and_total:
  "getImageIDFromURL ''https://lh3.googleusercontent.com/AbC-123_xyz'' =
     Return (''AbC-123_xyz'', None) \<and>
   getImageIDFromURL URL \<noteq> Panic \<and>
   (length (FindStringSubmatch URL) \<noteq> 2 \<longrightarrow>
      getImageIDFromURL URL = Return ([], Some (Error ''url doesn't contain the image id'')))"
  by (simp add: getImageIDFromURL_total mock_extraction) (simp add: getImageIDFromURL_def)

text \<open>Claim C9 at a text of another host: no submatches, the recognised error.\<close>

theorem getImageIDFromURL_example_and_total_witness:
  "length (FindStringSubmatch ''https://example.com/AbC'') \<noteq> 2 \<and>
   getImageIDFromURL ''https://example.com/AbC'' =
     Return ([], Some (Error ''url doesn't contain the image id''))"
proof -
  have h: "length (FindStringSubmatch ''https://example.com/AbC'') \<noteq> 2"
    by (simp add: FindStringSubmatch_def url_prefix_def)
  with getImageIDFromURL_example_and_total [of "''https://example.com/AbC''"]
  show ?thesis by simp
qed

text \<open>
  Claim C10.  Whenever extraction succeeds on a text with identifier \<open>i\<close>,
  \<open>URLString\<close> of a result whose \<open>ImageID\<close> is \<open>i\<close> is that very text; and the text
  with anything put in front of it, or with a suffix holding a character outside the
  class \<^verbatim>\<open>[\w-]\<close> put behind it, is rejected by extraction.
\<close>

theorem extraction_roundtrip:
  "getImageIDFromURL URL = Return (i, None) \<Longrightarrow>
     URLString (ur\<lparr>ImageID := i\<rparr>) = URL \<and>
     (\<forall>p s. p \<noteq> [] \<or> (\<exists>c \<in> set s. \<not> id_char c) \<longrightarrow>
        getImageIDFromURL (p @ URL @ s) =
          Return ([], Some (Error ''url doesn't contain the image id'')))"
  using extraction_rejects_extension [of URL i]
  by (simp add: getImageIDFromURL_ok_iff URLString_def url_prefix_def)

text \<open>Claim C10 at the identifier \<open>AbC-123_xyz\<close>, and at the same text followed by a
  query string.\<close>

theorem extraction_roundtrip_witness:
  "getImageIDFromURL ''https://lh3.googleusercontent.com/AbC-123_xyz'' =
     Return (''AbC-123_xyz'', None) \<and>
   URLString \<lparr>Uploaded = True, ImageID = ''AbC-123_xyz'', ImageUrl = [], AlbumID = []\<rparr> =
     ''https://lh3.googleusercontent.com/AbC-123_xyz'' \<and>
   getImageIDFromURL (''https://lh3.googleusercontent.com/AbC-123_xyz'' @ ''?sz=64'') =
     Return ([], Some (Error ''url doesn't contain the image id''))"
proof -
  have q: "\<exists>c \<in> set ''?sz=64''. \<not> id_char c"
    by (simp add: id_char_def word_char_def)
  from extraction_roundtrip [OF mock_extraction,
      of "\<lparr>Uploaded = True, ImageID = [], ImageUrl = [], AlbumID = []\<rparr>"]
  have "URLString \<lparr>Uploaded = True, ImageID = ''AbC-123_xyz'', ImageUrl = [], AlbumID = []\<rparr> =
     ''https://lh3.googleusercontent.com/AbC-123_xyz''"
    and r: "\<And>p s. p \<noteq> [] \<or> (\<exists>c \<in> set s. \<not> id_char c) \<Longrightarrow>
        getImageIDFromURL (p @ ''https://lh3.googleusercontent.com/AbC-123_xyz'' @ s) =
          Return ([], Some (Error ''url doesn't contain the image id''))"
    by simp_all
  moreover from r [of "[]" "''?sz=64''"] q
  have "getImageIDFromURL (''https://lh3.googleusercontent.com/AbC-123_xyz'' @ ''?sz=64'') =
     Return ([], Some (Error ''url doesn't contain the image id''))"
    by simp
  ultimately show ?thesis using mock_extraction by simp
qed

section \<open>Properties of \<open>NewUpload\<close>\<close>

lemma NewUpload_rejects:
  "s a = Some opts \<Longrightarrow> Stream opts = None \<or> sint (FileSize opts) \<le> 0 \<Longrightarrow>
     NewUpload now1 now2 (Some a) credentials s =
       (Return (None, Some (if Stream opts = None
                            then Error ''the stream of the UploadOptions is nil''
                            else Error ''the fileSize of the UploadOptions is <= 0'')), s)"
  by (auto simp: NewUpload_def)

lemma NewUpload_accepts:
  "s a = Some opts \<Longrightarrow> Stream opts \<noteq> None \<Longrightarrow> 0 < sint (FileSize opts) \<Longrightarrow>
     NewUpload now1 now2 (Some a) credentials s =
       (Return (Some \<lparr>Options = Some a, Credentials = credentials, url = [],
                       idToMoveIntoAlbum = []\<rparr>, None),
        s(a \<mapsto> opts\<lparr>Name := (if Name opts = [] then Time_String now1 else Name opts),
                      Timestamp := (if sint (Timestamp opts) < 0 then Time_Unix now2
                                    else Timestamp opts)\<rparr>))"
  by (auto simp: NewUpload_def Let_def)

text \<open>
  Claim C5.  For options at a valid address whose stream is nil or whose size is not
  positive, whatever the other fields and the credentials are, \<open>NewUpload\<close> returns
  the pair of a nil \<open>*Upload\<close> and a validation error, and the store is as it was.
  \<open>NewUpload\<close> has no access to the remote methods: no request can precede the error.
\<close>

theorem NewUpload_validation_error:
  "s a = Some opts \<Longrightarrow> Stream opts = None \<or> sint (FileSize opts) \<le> 0 \<Longrightarrow>
     NewUpload now1 now2 (Some a) credentials s =
       (Return (None, Some (if Stream opts = None
                            then Error ''the stream of the UploadOptions is nil''
                            else Error ''the fileSize of the UploadOptions is <= 0'')), s)"
  by (rule NewUpload_rejects)

text \<open>Claim C5 at options without a stream, and at options of size \<open>-1\<close>.\<close>

theorem NewUpload_validation_error_witness:
  "NewUpload mock_now mock_now (Some 0) (CookieCredentials [])
      [0 \<mapsto> photo_options\<lparr>Stream := None\<rparr>] =
     (Return (None, Some (Error ''the stream of the UploadOptions is nil'')),
      [0 \<mapsto> photo_options\<lparr>Stream := None\<rparr>]) \<and>
   NewUpload mock_now mock_now (Some 0) (CookieCredentials [])
      [0 \<mapsto> photo_options\<lparr>FileSize := - 1\<rparr>] =
     (Return (None, Some (Error ''the fileSize of the UploadOptions is <= 0'')),
      [0 \<mapsto> photo_options\<lparr>FileSize := - 1\<rparr>])"
  using NewUpload_validation_error [of "[0 \<mapsto> photo_options\<lparr>Stream := None\<rparr>]" 0
          "photo_options\<lparr>Stream := None\<rparr>" mock_now mock_now "CookieCredentials []"]
        NewUpload_validation_error [of "[0 \<mapsto> photo_options\<lparr>FileSize := - 1\<rparr>]" 0
          "photo_options\<lparr>FileSize := - 1\<rparr>" mock_now mock_now "CookieCredentials []"]
  by (simp add: photo_options_def)

text \<open>
  Claim C6.  The source fills the name when it is empty, and the timestamp only when it
  is negative (\<open>options.Timestamp < 0\<close>).  A timestamp the caller left out is the zero
  value of \<open>int64\<close>: options with \<open>Timestamp = 0\<close> are accepted and keep \<open>0\<close>,
  which is not the current time.
\<close>

theorem NewUpload_zero_Timestamp_kept:
  "NewUpload mock_now mock_now (Some 0) (CookieCredentials [])
      [0 \<mapsto> photo_options\<lparr>Timestamp := 0\<rparr>] =
     (Return (Some \<lparr>Options = Some 0, Credentials = CookieCredentials [], url = [],
                     idToMoveIntoAlbum = []\<rparr>, None),
      [0 \<mapsto> photo_options\<lparr>Timestamp := 0\<rparr>]) \<and>
   Timestamp (photo_options\<lparr>Timestamp := 0\<rparr>) \<noteq> Time_Unix mock_now"
  by (simp add: NewUpload_def photo_options_def mock_now_def Let_def)

text \<open>
  Claim C7, as stated, fails: \<open>NewUpload\<close> writes through the pointer it is given.
  Options with an empty name are not the same after the call: the caller's object now
  carries the text of the current time as its name.
\<close>

theorem NewUpload_mutates_options_counterexample:
  "snd (NewUpload mock_now mock_now (Some 0) (CookieCredentials [])
          [0 \<mapsto> photo_options\<lparr>Name := []\<rparr>]) =
     [0 \<mapsto> photo_options\<lparr>Name := ''2026-10-30 12:00:00 +0000 UTC''\<rparr>] \<and>
   snd (NewUpload mock_now mock_now (Some 0) (CookieCredentials [])
          [0 \<mapsto> photo_options\<lparr>Name := []\<rparr>]) \<noteq> [0 \<mapsto> photo_options\<lparr>Name := []\<rparr>]"
proof -
  have after: "snd (NewUpload mock_now mock_now (Some 0) (CookieCredentials [])
          [0 \<mapsto> photo_options\<lparr>Name := []\<rparr>]) =
     [0 \<mapsto> photo_options\<lparr>Name := ''2026-10-30 12:00:00 +0000 UTC''\<rparr>]"
    by (simp add: NewUpload_def photo_options_def mock_now_def Let_def)
  have "[0 \<mapsto> photo_options\<lparr>Name := ''2026-10-30 12:00:00 +0000 UTC''\<rparr>] (0::nat) \<noteq>
        [0 \<mapsto> photo_options\<lparr>Name := []\<rparr>] 0"
    by (simp add: photo_options_def)
  then have "[0 \<mapsto> photo_options\<lparr>Name := ''2026-10-30 12:00:00 +0000 UTC''\<rparr>] \<noteq>
        [(0::nat) \<mapsto> photo_options\<lparr>Name := []\<rparr>]"
    by metis
  with after show ?thesis by simp
qed

section \<open>Properties of \<open>Upload\<close>\<close>

text \<open>What \<open>Upload\<close> returns and leaves behind, path by path.\<close>

lemma Upload_step1_fails:
  "requestUploadURL api u (heap w) = Inl e \<Longrightarrow>
     Upload_Upload api u w =
       (Return (\<lparr>Uploaded = False, ImageID = [], ImageUrl = [], AlbumID = []\<rparr>,
                Some (Error ''can't get an upload url'')),
        u, w\<lparr>requests := requests w @ [RequestUploadURL]\<rparr>)"
  by (simp add: Upload_Upload_def Let_def invoke_def)

lemma Upload_step2_fails:
  "requestUploadURL api u (heap w) = Inr target \<Longrightarrow>
   uploadFile api (u\<lparr>url := target\<rparr>) (heap w) = Inl e \<Longrightarrow>
     Upload_Upload api u w =
       (Return (\<lparr>Uploaded = False, ImageID = [], ImageUrl = [], AlbumID = []\<rparr>,
                Some (Error ''can't upload file to the url obtained from the previously request'')),
        u\<lparr>url := target\<rparr>, w\<lparr>requests := requests w @ [RequestUploadURL, UploadFile]\<rparr>)"
  by (simp add: Upload_Upload_def Let_def invoke_def)

lemma Upload_step3_fails:
  "requestUploadURL api u (heap w) = Inr target \<Longrightarrow>
   uploadFile api (u\<lparr>url := target\<rparr>) (heap w) = Inr token \<Longrightarrow>
   enablePhoto api (u\<lparr>url := target\<rparr>) (heap w) token = Inl e \<Longrightarrow>
     Upload_Upload api u w =
       (Return (\<lparr>Uploaded = True, ImageID = [], ImageUrl = [], AlbumID = []\<rparr>, Some e),
        u\<lparr>url := target\<rparr>,
        w\<lparr>requests := requests w @ [RequestUploadURL, UploadFile, EnablePhoto token],
          stderr := stderr w @
            [''[WARNING] The file has been uploaded, but the image url in the reply was not found. The image may not appear.'']\<rparr>)"
  by (simp add: Upload_Upload_def Let_def invoke_def Println_def)

lemma Upload_extraction_fails:
  "requestUploadURL api u (heap w) = Inr target \<Longrightarrow>
   uploadFile api (u\<lparr>url := target\<rparr>) (heap w) = Inr token \<Longrightarrow>
   enablePhoto api (u\<lparr>url := target\<rparr>) (heap w) token = Inr (rawURL, moveId) \<Longrightarrow>
   getImageIDFromURL rawURL = Return (i, Some e) \<Longrightarrow>
     Upload_Upload api u w =
       (Return (\<lparr>Uploaded = True, ImageID = [], ImageUrl = rawURL, AlbumID = []\<rparr>, Some e),
        u\<lparr>url := target, idToMoveIntoAlbum := moveId\<rparr>,
        w\<lparr>requests := requests w @ [RequestUploadURL, UploadFile, EnablePhoto token],
          stderr := stderr w @
            [''[WARNING] the file has been uploaded, but the image URL does not contain its id. The image may not appear.'']\<rparr>)"
  by (simp add: Upload_Upload_def Let_def invoke_def Println_def)

lemma Upload_nil_options:
  "requestUploadURL api u (heap w) = Inr target \<Longrightarrow>
   uploadFile api (u\<lparr>url := target\<rparr>) (heap w) = Inr token \<Longrightarrow>
   enablePhoto api (u\<lparr>url := target\<rparr>) (heap w) token = Inr (imageURL, moveId) \<Longrightarrow>
   getImageIDFromURL imageURL = Return (imageID, None) \<Longrightarrow>
   deref (heap w) (Options u) = None \<Longrightarrow>
     fst (Upload_Upload api u w) = Panic"
  by (simp add: Upload_Upload_def Let_def invoke_def Println_def)

lemma Upload_no_album:
  "requestUploadURL api u (heap w) = Inr target \<Longrightarrow>
   uploadFile api (u\<lparr>url := target\<rparr>) (heap w) = Inr token \<Longrightarrow>
   enablePhoto api (u\<lparr>url := target\<rparr>) (heap w) token = Inr (imageURL, moveId) \<Longrightarrow>
   getImageIDFromURL imageURL = Return (imageID, None) \<Longrightarrow>
   deref (heap w) (Options u) = Some opts \<Longrightarrow>
   AlbumName opts = [] \<Longrightarrow>
     Upload_Upload api u w =
       (Return (\<lparr>Uploaded = True, ImageID = imageID, ImageUrl = imageURL, AlbumID = []\<rparr>, None),
        u\<lparr>url := target, idToMoveIntoAlbum := moveId\<rparr>,
        w\<lparr>requests := requests w @ [RequestUploadURL, UploadFile, EnablePhoto token] @
             (if AlbumId opts \<noteq> [] then [MoveToAlbum (AlbumId opts)] else [])\<rparr>)"
  by (simp add: Upload_Upload_def Let_def invoke_def Println_def)

lemma Upload_album_fails:
  "requestUploadURL api u (heap w) = Inr target \<Longrightarrow>
   uploadFile api (u\<lparr>url := target\<rparr>) (heap w) = Inr token \<Longrightarrow>
   enablePhoto api (u\<lparr>url := target\<rparr>) (heap w) token = Inr (imageURL, moveId) \<Longrightarrow>
   getImageIDFromURL imageURL = Return (imageID, None) \<Longrightarrow>
   deref (heap w) (Options u) = Some opts \<Longrightarrow>
   AlbumName opts \<noteq> [] \<Longrightarrow>
   createAlbum api (u\<lparr>url := target, idToMoveIntoAlbum := moveId\<rparr>) (heap w) (AlbumName opts) = Inl e \<Longrightarrow>
     Upload_Upload api u w =
       (Return (\<lparr>Uploaded = True, ImageID = imageID, ImageUrl = imageURL, AlbumID = []\<rparr>, Some e),
        u\<lparr>url := target, idToMoveIntoAlbum := moveId\<rparr>,
        w\<lparr>requests := requests w @ [RequestUploadURL, UploadFile, EnablePhoto token] @
             (if AlbumId opts \<noteq> [] then [MoveToAlbum (AlbumId opts)] else []) @
             [CreateAlbum (AlbumName opts)],
          stderr := stderr w @
            [''[WARNING] the file has been uploaded, but the album hasn't been created.'']\<rparr>)"
  by (simp add: Upload_Upload_def Let_def invoke_def Println_def)

lemma Upload_album_created:
  "requestUploadURL api u (heap w) = Inr target \<Longrightarrow>
   uploadFile api (u\<lparr>url := target\<rparr>) (heap w) = Inr token \<Longrightarrow>
   enablePhoto api (u\<lparr>url := target\<rparr>) (heap w) token = Inr (imageURL, moveId) \<Longrightarrow>
   getImageIDFromURL imageURL = Return (imageID, None) \<Longrightarrow>
   deref (heap w) (Options u) = Some opts \<Longrightarrow>
   AlbumName opts \<noteq> [] \<Longrightarrow>
   createAlbum api (u\<lparr>url := target, idToMoveIntoAlbum := moveId\<rparr>) (heap w) (AlbumName opts) = Inr albumID \<Longrightarrow>
     Upload_Upload api u w =
       (Return (\<lparr>Uploaded = True, ImageID = imageID, ImageUrl = imageURL, AlbumID = albumID\<rparr>, None),
        u\<lparr>url := target, idToMoveIntoAlbum := moveId\<rparr>,
        w\<lparr>requests := requests w @ [RequestUploadURL, UploadFile, EnablePhoto token] @
             (if AlbumId opts \<noteq> [] then [MoveToAlbum (AlbumId opts)] else []) @
             [CreateAlbum (AlbumName opts)]\<rparr>)"
  by (simp add: Upload_Upload_def Let_def invoke_def Println_def)

lemma heap_Upload: "heap (snd (snd (Upload_Upload api u w))) = heap w"
  by (simp add: Upload_Upload_def Let_def invoke_def Println_def
           split: sum.split outcome.split option.split)

lemma Upload_ignores_moveToAlbum:
  "Upload_Upload (api\<lparr>moveToAlbum := f\<rparr>) u w = Upload_Upload api u w"
  by (simp add: Upload_Upload_def Let_def split: sum.split outcome.split option.split)

lemma bad_url: "FindStringSubmatch ''https://example.com/photo.jpg'' = []"
  by (simp add: FindStringSubmatch_def url_prefix_def)

lemma Upload_success_iff:
 "fst (Upload_Upload api u w) = Return (res, None) \<longleftrightarrow>
   (\<exists>target token imageURL moveId imageID opts.
      requestUploadURL api u (heap w) = Inr target \<and>
      uploadFile api (u\<lparr>url := target\<rparr>) (heap w) = Inr token \<and>
      enablePhoto api (u\<lparr>url := target\<rparr>) (heap w) token = Inr (imageURL, moveId) \<and>
      getImageIDFromURL imageURL = Return (imageID, None) \<and>
      deref (heap w) (Options u) = Some opts \<and>
      (AlbumName opts = [] \<and>
         res = \<lparr>Uploaded = True, ImageID = imageID, ImageUrl = imageURL, AlbumID = []\<rparr>
       \<or> AlbumName opts \<noteq> [] \<and>
         (\<exists>albumID. createAlbum api (u\<lparr>url := target, idToMoveIntoAlbum := moveId\<rparr>) (heap w)
                        (AlbumName opts) = Inr albumID \<and>
            res = \<lparr>Uploaded = True, ImageID = imageID, ImageUrl = imageURL, AlbumID = albumID\<rparr>)))"
  (is "?L \<longleftrightarrow> ?R")
proof
  assume ?R
  then show ?L
    by (auto simp: Upload_no_album Upload_album_created)
next
  assume L: ?L
  show ?R
  proof (cases "requestUploadURL api u (heap w)")
    case (Inl e)
    with L show ?thesis by (simp add: Upload_step1_fails)
  next
    case (Inr target)
    note s1 = this
    show ?thesis
    proof (cases "uploadFile api (u\<lparr>url := target\<rparr>) (heap w)")
      case (Inl e)
      with L s1 show ?thesis by (simp add: Upload_step2_fails)
    next
      case (Inr token)
      note s2 = this
      show ?thesis
      proof (cases "enablePhoto api (u\<lparr>url := target\<rparr>) (heap w) token")
        case (Inl e)
        with L s1 s2 show ?thesis by (simp add: Upload_step3_fails)
      next
        case (Inr enabled)
        then obtain imageURL moveId where
          s3: "enablePhoto api (u\<lparr>url := target\<rparr>) (heap w) token = Inr (imageURL, moveId)"
          by (cases enabled) simp
        show ?thesis
        proof (cases "getImageIDFromURL imageURL")
          case Panic
          then show ?thesis by (simp add: getImageIDFromURL_total)
        next
          case (Return extracted)
          show ?thesis
          proof (cases "snd extracted")
            case (Some e)
            with Return have "getImageIDFromURL imageURL = Return (fst extracted, Some e)"
              by (cases extracted) simp
            with L s1 s2 s3 show ?thesis by (simp add: Upload_extraction_fails)
          next
            case None
            with Return have s4: "getImageIDFromURL imageURL = Return (fst extracted, None)"
              by (cases extracted) simp
            show ?thesis
            proof (cases "deref (heap w) (Options u)")
              case None
              with L s1 s2 s3 s4 show ?thesis by (simp add: Upload_nil_options)
            next
              case (Some opts)
              note s5 = this
              show ?thesis
              proof (cases "AlbumName opts = []")
                case True
                with L s1 s2 s3 s4 s5 show ?thesis by (simp add: Upload_no_album)
              next
                case False
                note s6 = this
                show ?thesis
                proof (cases "createAlbum api (u\<lparr>url := target, idToMoveIntoAlbum := moveId\<rparr>) (heap w) (AlbumName opts)")
                  case (Inl e)
                  with L s1 s2 s3 s4 s5 s6 show ?thesis by (simp add: Upload_album_fails)
                next
                  case (Inr albumID)
                  with L s1 s2 s3 s4 s5 s6 show ?thesis by (simp add: Upload_album_created)
                qed
              qed
            qed
          qed
        qed
      qed
    qed
  qed
qed

text \<open>
  Claim C1.  \<open>Upload\<close> returns a result together with a nil error exactly when
  steps 1 to 3 succeed, extraction succeeds on the URL of step 3, the options pointer of
  the upload is valid and either no album name is set or album creation succeeds.  The
  result is then \<open>Uploaded = True\<close> with the extracted identifier and the URL, and
  its \<open>AlbumID\<close> is the identifier of the created album if the album branch ran and
  the empty string otherwise; its URL is the one \<open>URLString\<close> rebuilds from the
  identifier.
\<close>

theorem Upload_nil_error_iff_full_success:
 "(fst (Upload_Upload api u w) = Return (res, None) \<longleftrightarrow>
   (\<exists>target token imageURL moveId imageID opts.
      requestUploadURL api u (heap w) = Inr target \<and>
      uploadFile api (u\<lparr>url := target\<rparr>) (heap w) = Inr token \<and>
      enablePhoto api (u\<lparr>url := target\<rparr>) (heap w) token = Inr (imageURL, moveId) \<and>
      getImageIDFromURL imageURL = Return (imageID, None) \<and>
      deref (heap w) (Options u) = Some opts \<and>
      (AlbumName opts = [] \<and>
         res = \<lparr>Uploaded = True, ImageID = imageID, ImageUrl = imageURL, AlbumID = []\<rparr>
       \<or> AlbumName opts \<noteq> [] \<and>
         (\<exists>albumID. createAlbum api (u\<lparr>url := target, idToMoveIntoAlbum := moveId\<rparr>) (heap w)
                        (AlbumName opts) = Inr albumID \<and>
            res = \<lparr>Uploaded = True, ImageID = imageID, ImageUrl = imageURL, AlbumID = albumID\<rparr>)))) \<and>
  (fst (Upload_Upload api u w) = Return (res, None) \<longrightarrow>
     Uploaded res \<and> ImageUrl res = URLString res)"
  using Upload_success_iff [of api u w res]
  by (auto simp: getImageIDFromURL_ok_iff URLString_def url_prefix_def)

text \<open>
  Claim C1 on the mock transport with no album field set: the result is the identifier
  embedded in the URL of step 3, that URL, and an empty album identifier.
\<close>

theorem Upload_nil_error_iff_full_success_witness:
  "fst (Upload_Upload mock_remote mock_upload mock_world) =
     Return (\<lparr>Uploaded = True, ImageID = ''AbC-123_xyz'',
              ImageUrl = ''https://lh3.googleusercontent.com/AbC-123_xyz'', AlbumID = []\<rparr>, None)"
  using Upload_nil_error_iff_full_success [of mock_remote mock_upload mock_world
      "\<lparr>Uploaded = True, ImageID = ''AbC-123_xyz'',
        ImageUrl = ''https://lh3.googleusercontent.com/AbC-123_xyz'', AlbumID = []\<rparr>"]
  by (simp add: mock_remote_def mock_upload_def mock_world_def photo_options_def deref_def
        mock_extraction)

text \<open>
  Claim C2.  Let steps 1 and 2 succeed.  If \<open>enablePhoto\<close> fails with \<open>e\<close>, the
  result is \<open>Uploaded = True\<close> with all other fields empty, the error is \<open>e\<close>
  (so not nil), and one \<open>[WARNING]\<close> line is printed.  If \<open>enablePhoto\<close> succeeds
  and its URL does not match the pattern, the result is \<open>Uploaded = True\<close> with
  \<open>ImageUrl\<close> the raw URL and no identifier, the error is the extraction error, and
  one \<open>[WARNING]\<close> line is printed.
\<close>

theorem Upload_enable_photo_failures:
  assumes "requestUploadURL api u (heap w) = Inr target"
    and "uploadFile api (u\<lparr>url := target\<rparr>) (heap w) = Inr token"
  shows "(enablePhoto api (u\<lparr>url := target\<rparr>) (heap w) token = Inl e \<longrightarrow>
           fst (Upload_Upload api u w) =
             Return (\<lparr>Uploaded = True, ImageID = [], ImageUrl = [], AlbumID = []\<rparr>, Some e) \<and>
           stderr (snd (snd (Upload_Upload api u w))) = stderr w @
             [''[WARNING] The file has been uploaded, but the image url in the reply was not found. The image may not appear.'']) \<and>
         (enablePhoto api (u\<lparr>url := target\<rparr>) (heap w) token = Inr (rawURL, moveId) \<and>
          FindStringSubmatch rawURL = [] \<longrightarrow>
           fst (Upload_Upload api u w) =
             Return (\<lparr>Uploaded = True, ImageID = [], ImageUrl = rawURL, AlbumID = []\<rparr>,
                     Some (Error ''url doesn't contain the image id'')) \<and>
           stderr (snd (snd (Upload_Upload api u w))) = stderr w @
             [''[WARNING] the file has been uploaded, but the image URL does not contain its id. The image may not appear.''])"
proof (intro conjI impI)
  assume "enablePhoto api (u\<lparr>url := target\<rparr>) (heap w) token = Inl e"
  with assms have
    "Upload_Upload api u w =
       (Return (\<lparr>Uploaded = True, ImageID = [], ImageUrl = [], AlbumID = []\<rparr>, Some e),
        u\<lparr>url := target\<rparr>,
        w\<lparr>requests := requests w @ [RequestUploadURL, UploadFile, EnablePhoto token],
          stderr := stderr w @
            [''[WARNING] The file has been uploaded, but the image url in the reply was not found. The image may not appear.'']\<rparr>)"
    by (rule Upload_step3_fails)
  then show "fst (Upload_Upload api u w) =
             Return (\<lparr>Uploaded = True, ImageID = [], ImageUrl = [], AlbumID = []\<rparr>, Some e)"
    and "stderr (snd (snd (Upload_Upload api u w))) = stderr w @
             [''[WARNING] The file has been uploaded, but the image url in the reply was not found. The image may not appear.'']"
    by simp_all
next
  assume a: "enablePhoto api (u\<lparr>url := target\<rparr>) (heap w) token = Inr (rawURL, moveId) \<and>
          FindStringSubmatch rawURL = []"
  then have "getImageIDFromURL rawURL =
      Return ([], Some (Error ''url doesn't contain the image id''))"
    by (simp add: getImageIDFromURL_def)
  with assms a have
    "Upload_Upload api u w =
       (Return (\<lparr>Uploaded = True, ImageID = [], ImageUrl = rawURL, AlbumID = []\<rparr>,
                Some (Error ''url doesn't contain the image id'')),
        u\<lparr>url := target, idToMoveIntoAlbum := moveId\<rparr>,
        w\<lparr>requests := requests w @ [RequestUploadURL, UploadFile, EnablePhoto token],
          stderr := stderr w @
            [''[WARNING] the file has been uploaded, but the image URL does not contain its id. The image may not appear.'']\<rparr>)"
    by (simp add: Upload_extraction_fails)
  then show "fst (Upload_Upload api u w) =
             Return (\<lparr>Uploaded = True, ImageID = [], ImageUrl = rawURL, AlbumID = []\<rparr>,
                     Some (Error ''url doesn't contain the image id''))"
    and "stderr (snd (snd (Upload_Upload api u w))) = stderr w @
             [''[WARNING] the file has been uploaded, but the image URL does not contain its id. The image may not appear.'']"
    by simp_all
qed

text \<open>
  Claim C2 on the mock transport, once with a failing step 3 and once with a step 3
  that answers a URL of another host.
\<close>

theorem Upload_enable_photo_failures_witness:
  "fst (Upload_Upload (mock_remote\<lparr>enablePhoto := \<lambda>u s token. Inl (Error ''EOF'')\<rparr>)
          mock_upload mock_world) =
     Return (\<lparr>Uploaded = True, ImageID = [], ImageUrl = [], AlbumID = []\<rparr>, Some (Error ''EOF'')) \<and>
   fst (Upload_Upload
          (mock_remote\<lparr>enablePhoto := \<lambda>u s token. Inr (''https://example.com/photo.jpg'', ''move-1'')\<rparr>)
          mock_upload mock_world) =
     Return (\<lparr>Uploaded = True, ImageID = [], ImageUrl = ''https://example.com/photo.jpg'',
              AlbumID = []\<rparr>, Some (Error ''url doesn't contain the image id''))"
  using Upload_enable_photo_failures [of "mock_remote\<lparr>enablePhoto := \<lambda>u s token. Inl (Error ''EOF'')\<rparr>"
               mock_upload mock_world "''https://photos.example/upload/1''" "''token-1''"
               "Error ''EOF''"]
        Upload_enable_photo_failures [of "mock_remote\<lparr>enablePhoto := \<lambda>u s token. Inr (''https://example.com/photo.jpg'', ''move-1'')\<rparr>"
               mock_upload mock_world "''https://photos.example/upload/1''" "''token-1''"
               "Error ''EOF''" "''https://example.com/photo.jpg''" "''move-1''"]
        bad_url
  by (simp add: mock_remote_def)

text \<open>
  Claim C3.  If step 1 fails, or step 1 succeeds and step 2 fails, \<open>Upload\<close> returns
  a result with \<open>Uploaded = False\<close> and a non-nil error, and the requests made are
  exactly \<open>requestUploadURL\<close>, respectively \<open>requestUploadURL\<close> and
  \<open>uploadFile\<close>: no enable-photo, album-move or album-create request is made.
\<close>

theorem Upload_aborts_before_enable:
  "(requestUploadURL api u (heap w) = Inl e \<longrightarrow>
      Upload_Upload api u w =
        (Return (\<lparr>Uploaded = False, ImageID = [], ImageUrl = [], AlbumID = []\<rparr>,
                 Some (Error ''can't get an upload url'')),
         u, w\<lparr>requests := requests w @ [RequestUploadURL]\<rparr>)) \<and>
   (requestUploadURL api u (heap w) = Inr target \<and>
    uploadFile api (u\<lparr>url := target\<rparr>) (heap w) = Inl e \<longrightarrow>
      Upload_Upload api u w =
        (Return (\<lparr>Uploaded = False, ImageID = [], ImageUrl = [], AlbumID = []\<rparr>,
                 Some (Error ''can't upload file to the url obtained from the previously request'')),
         u\<lparr>url := target\<rparr>, w\<lparr>requests := requests w @ [RequestUploadURL, UploadFile]\<rparr>))"
  by (simp add: Upload_step1_fails Upload_step2_fails)

text \<open>
  Claim C3 on the mock transport with a failing step 1 and with a failing step 2.
\<close>

theorem Upload_aborts_before_enable_witness:
  "Upload_Upload (mock_remote\<lparr>requestUploadURL := \<lambda>u s. Inl (Error ''EOF'')\<rparr>)
      mock_upload mock_world =
     (Return (\<lparr>Uploaded = False, ImageID = [], ImageUrl = [], AlbumID = []\<rparr>,
              Some (Error ''can't get an upload url'')),
      mock_upload, mock_world\<lparr>requests := [RequestUploadURL]\<rparr>) \<and>
   Upload_Upload (mock_remote\<lparr>uploadFile := \<lambda>u s. Inl (Error ''EOF'')\<rparr>)
      mock_upload mock_world =
     (Return (\<lparr>Uploaded = False, ImageID = [], ImageUrl = [], AlbumID = []\<rparr>,
              Some (Error ''can't upload file to the url obtained from the previously request'')),
      mock_upload\<lparr>url := ''https://photos.example/upload/1''\<rparr>,
      mock_world\<lparr>requests := [RequestUploadURL, UploadFile]\<rparr>)"
  using Upload_aborts_before_enable [of "mock_remote\<lparr>requestUploadURL := \<lambda>u s. Inl (Error ''EOF'')\<rparr>"
               mock_upload mock_world "Error ''EOF''"]
        Upload_aborts_before_enable [of "mock_remote\<lparr>uploadFile := \<lambda>u s. Inl (Error ''EOF'')\<rparr>"
               mock_upload mock_world "Error ''EOF''" "''https://photos.example/upload/1''"]
  by (simp add: mock_remote_def mock_world_def)

text \<open>
  Claim C4.  Let steps 1 to 3 and extraction succeed and let an album name be set.  If
  \<open>createAlbum\<close> fails with \<open>e\<close>, the result carries the identifier and the URL,
  an empty \<open>AlbumID\<close>, and the error \<open>e\<close>; if it succeeds, the identifier of the
  created album is the result's \<open>AlbumID\<close> and the error is nil.
\<close>

theorem Upload_create_album_outcomes:
  assumes "requestUploadURL api u (heap w) = Inr target"
    and "uploadFile api (u\<lparr>url := target\<rparr>) (heap w) = Inr token"
    and "enablePhoto api (u\<lparr>url := target\<rparr>) (heap w) token = Inr (imageURL, moveId)"
    and "getImageIDFromURL imageURL = Return (imageID, None)"
    and "deref (heap w) (Options u) = Some opts"
    and "AlbumName opts \<noteq> []"
  shows "(createAlbum api (u\<lparr>url := target, idToMoveIntoAlbum := moveId\<rparr>) (heap w)
             (AlbumName opts) = Inl e \<longrightarrow>
           fst (Upload_Upload api u w) =
             Return (\<lparr>Uploaded = True, ImageID = imageID, ImageUrl = imageURL, AlbumID = []\<rparr>,
                     Some e)) \<and>
         (createAlbum api (u\<lparr>url := target, idToMoveIntoAlbum := moveId\<rparr>) (heap w)
             (AlbumName opts) = Inr albumID \<longrightarrow>
           fst (Upload_Upload api u w) =
             Return (\<lparr>Uploaded = True, ImageID = imageID, ImageUrl = imageURL,
                      AlbumID = albumID\<rparr>, None))"
  using assms by (simp add: Upload_album_fails Upload_album_created)

text \<open>
  Claim C4 on the mock transport with the album name \<open>Holidays\<close>: creation
  answering \<open>ALBUM123\<close>, and creation failing.
\<close>

theorem Upload_create_album_outcomes_witness:
  "fst (Upload_Upload mock_remote mock_upload album_world) =
     Return (\<lparr>Uploaded = True, ImageID = ''AbC-123_xyz'',
              ImageUrl = ''https://lh3.googleusercontent.com/AbC-123_xyz'',
              AlbumID = ''ALBUM123''\<rparr>, None) \<and>
   fst (Upload_Upload (mock_remote\<lparr>createAlbum := \<lambda>u s name. Inl (Error ''EOF'')\<rparr>)
          mock_upload album_world) =
     Return (\<lparr>Uploaded = True, ImageID = ''AbC-123_xyz'',
              ImageUrl = ''https://lh3.googleusercontent.com/AbC-123_xyz'',
              AlbumID = []\<rparr>, Some (Error ''EOF''))"
  using Upload_create_album_outcomes [of mock_remote mock_upload album_world "''https://photos.example/upload/1''"
               "''token-1''" "''https://lh3.googleusercontent.com/AbC-123_xyz''" "''move-1''"
               "''AbC-123_xyz''" "photo_options\<lparr>AlbumName := ''Holidays''\<rparr>"
               "Error ''EOF''" "''ALBUM123''"]
        Upload_create_album_outcomes [of "mock_remote\<lparr>createAlbum := \<lambda>u s name. Inl (Error ''EOF'')\<rparr>"
               mock_upload album_world "''https://photos.example/upload/1''"
               "''token-1''" "''https://lh3.googleusercontent.com/AbC-123_xyz''" "''move-1''"
               "''AbC-123_xyz''" "photo_options\<lparr>AlbumName := ''Holidays''\<rparr>"
               "Error ''EOF''" "''ALBUM123''"]
        mock_extraction
  by (simp add: mock_remote_def mock_upload_def album_world_def deref_def)

text \<open>
  Claim C7, amended.  \<open>NewUpload\<close> changes the store at the address of the options
  only, and there it leaves \<open>Stream\<close>, \<open>FileSize\<close>, \<open>AlbumId\<close> and
  \<open>AlbumName\<close> as they were; a name that is not empty and a timestamp that is not
  negative are left as they were too.  When \<open>NewUpload\<close> returns an error the store
  is unchanged.  \<open>Upload\<close> leaves the store unchanged.
\<close>

theorem NewUpload_frame:
  assumes "s a = Some opts"
  shows
    "(\<exists>opts'. snd (NewUpload now1 now2 (Some a) credentials s) = s(a \<mapsto> opts') \<and>
        Stream opts' = Stream opts \<and> FileSize opts' = FileSize opts \<and>
        AlbumId opts' = AlbumId opts \<and> AlbumName opts' = AlbumName opts \<and>
        (Name opts \<noteq> [] \<longrightarrow> Name opts' = Name opts) \<and>
        (0 \<le> sint (Timestamp opts) \<longrightarrow> Timestamp opts' = Timestamp opts)) \<and>
     ((\<exists>e. fst (NewUpload now1 now2 (Some a) credentials s) = Return (None, Some e)) \<longrightarrow>
        snd (NewUpload now1 now2 (Some a) credentials s) = s) \<and>
     heap (snd (snd (Upload_Upload api u w))) = heap w"
proof (cases "Stream opts = None \<or> sint (FileSize opts) \<le> 0")
  case True
  with assms have "snd (NewUpload now1 now2 (Some a) credentials s) = s"
    by (simp add: NewUpload_rejects)
  moreover from assms have "s = s(a \<mapsto> opts)"
    by (simp add: fun_upd_idem)
  ultimately show ?thesis
    by (simp add: heap_Upload) (rule exI [of _ opts], simp)
next
  case False
  let ?opts' = "opts\<lparr>Name := (if Name opts = [] then Time_String now1 else Name opts),
                     Timestamp := (if sint (Timestamp opts) < 0 then Time_Unix now2
                                   else Timestamp opts)\<rparr>"
  from False assms have new:
    "NewUpload now1 now2 (Some a) credentials s =
       (Return (Some \<lparr>Options = Some a, Credentials = credentials, url = [],
                       idToMoveIntoAlbum = []\<rparr>, None), s(a \<mapsto> ?opts'))"
    by (simp add: NewUpload_accepts)
  have "\<exists>opts'. s(a \<mapsto> ?opts') = s(a \<mapsto> opts') \<and>
        Stream opts' = Stream opts \<and> FileSize opts' = FileSize opts \<and>
        AlbumId opts' = AlbumId opts \<and> AlbumName opts' = AlbumName opts \<and>
        (Name opts \<noteq> [] \<longrightarrow> Name opts' = Name opts) \<and>
        (0 \<le> sint (Timestamp opts) \<longrightarrow> Timestamp opts' = Timestamp opts)"
    by (rule exI [of _ ?opts']) simp
  with new show ?thesis
    by (simp only: snd_conv fst_conv heap_Upload) simp
qed

text \<open>
  Claim C7, amended, at options with an empty name, and at an upload on the mock
  transport.
\<close>

theorem NewUpload_frame_witness:
  "(\<exists>opts'. snd (NewUpload mock_now mock_now (Some 0) (CookieCredentials [])
                   [0 \<mapsto> photo_options\<lparr>Name := []\<rparr>]) = [0 \<mapsto> opts'] \<and>
        Stream opts' = Some (Reader ''JPEG'') \<and> FileSize opts' = 4 \<and>
        AlbumId opts' = [] \<and> AlbumName opts' = [] \<and> Timestamp opts' = 1500000000000) \<and>
   heap (snd (snd (Upload_Upload mock_remote mock_upload mock_world))) = [0 \<mapsto> photo_options]"
  using NewUpload_frame [of "[0 \<mapsto> photo_options\<lparr>Name := []\<rparr>]" 0 "photo_options\<lparr>Name := []\<rparr>"
               mock_now mock_now "CookieCredentials []" mock_remote mock_upload mock_world]
  by (simp add: photo_options_def mock_world_def)

text \<open>
  Claim C8, as stated, fails: when \<open>enablePhoto\<close> fails with the error \<open>EOF\<close>,
  \<open>Upload\<close> returns that very error, with no description of the phase; when
  \<open>createAlbum\<close> fails with \<open>EOF\<close> it returns the same error, so the two phases
  cannot be told apart from the returned error.
\<close>

theorem Upload_forwards_error_counterexample:
  "fst (Upload_Upload (mock_remote\<lparr>enablePhoto := \<lambda>u s token. Inl (Error ''EOF'')\<rparr>)
          mock_upload album_world) =
     Return (\<lparr>Uploaded = True, ImageID = [], ImageUrl = [], AlbumID = []\<rparr>, Some (Error ''EOF'')) \<and>
   fst (Upload_Upload (mock_remote\<lparr>createAlbum := \<lambda>u s name. Inl (Error ''EOF'')\<rparr>)
          mock_upload album_world) =
     Return (\<lparr>Uploaded = True, ImageID = ''AbC-123_xyz'',
              ImageUrl = ''https://lh3.googleusercontent.com/AbC-123_xyz'', AlbumID = []\<rparr>,
             Some (Error ''EOF''))"
  by (simp add: Upload_Upload_def Let_def invoke_def Println_def mock_remote_def mock_upload_def album_world_def
        photo_options_def deref_def mock_extraction)

text \<open>
  Claim C8, amended.  A failure of step 1 or of step 2 makes \<open>Upload\<close> return a
  fixed error that names the phase, whatever the underlying error was.  A failure of
  step 3 (enable photo) or of album creation makes \<open>Upload\<close> return the underlying
  error itself and print a \<open>[WARNING]\<close> line that names the phase.  What
  \<open>moveToAlbum\<close> returns has no influence on what \<open>Upload\<close> returns.
\<close>

theorem Upload_error_propagation:
  "(requestUploadURL api u (heap w) = Inl e \<longrightarrow>
      (\<exists>res. fst (Upload_Upload api u w) = Return (res, Some (Error ''can't get an upload url'')))) \<and>
   (requestUploadURL api u (heap w) = Inr target \<and>
    uploadFile api (u\<lparr>url := target\<rparr>) (heap w) = Inl e \<longrightarrow>
      (\<exists>res. fst (Upload_Upload api u w) =
         Return (res, Some (Error ''can't upload file to the url obtained from the previously request'')))) \<and>
   (requestUploadURL api u (heap w) = Inr target \<and>
    uploadFile api (u\<lparr>url := target\<rparr>) (heap w) = Inr token \<and>
    enablePhoto api (u\<lparr>url := target\<rparr>) (heap w) token = Inl e \<longrightarrow>
      (\<exists>res. fst (Upload_Upload api u w) = Return (res, Some e)) \<and>
      stderr (snd (snd (Upload_Upload api u w))) = stderr w @
        [''[WARNING] The file has been uploaded, but the image url in the reply was not found. The image may not appear.'']) \<and>
   (requestUploadURL api u (heap w) = Inr target \<and>
    uploadFile api (u\<lparr>url := target\<rparr>) (heap w) = Inr token \<and>
    enablePhoto api (u\<lparr>url := target\<rparr>) (heap w) token = Inr (imageURL, moveId) \<and>
    getImageIDFromURL imageURL = Return (imageID, None) \<and>
    deref (heap w) (Options u) = Some opts \<and> AlbumName opts \<noteq> [] \<and>
    createAlbum api (u\<lparr>url := target, idToMoveIntoAlbum := moveId\<rparr>) (heap w)
      (AlbumName opts) = Inl e \<longrightarrow>
      (\<exists>res. fst (Upload_Upload api u w) = Return (res, Some e)) \<and>
      stderr (snd (snd (Upload_Upload api u w))) = stderr w @
        [''[WARNING] the file has been uploaded, but the album hasn't been created.'']) \<and>
   Upload_Upload (api\<lparr>moveToAlbum := f\<rparr>) u w = Upload_Upload api u w"
  by (simp add: Upload_step1_fails Upload_step2_fails Upload_step3_fails Upload_album_fails
        Upload_ignores_moveToAlbum)

text \<open>
  Claim C8, amended, on the mock transport with each of the four steps failing in
  turn.
\<close>

theorem Upload_error_propagation_witness:
  "(\<exists>res. fst (Upload_Upload (mock_remote\<lparr>requestUploadURL := \<lambda>u s. Inl (Error ''EOF'')\<rparr>)
                  mock_upload album_world) =
           Return (res, Some (Error ''can't get an upload url''))) \<and>
   (\<exists>res. fst (Upload_Upload (mock_remote\<lparr>uploadFile := \<lambda>u s. Inl (Error ''EOF'')\<rparr>)
                  mock_upload album_world) =
           Return (res, Some (Error ''can't upload file to the url obtained from the previously request''))) \<and>
   (\<exists>res. fst (Upload_Upload (mock_remote\<lparr>enablePhoto := \<lambda>u s token. Inl (Error ''EOF'')\<rparr>)
                  mock_upload album_world) =
           Return (res, Some (Error ''EOF''))) \<and>
   (\<exists>res. fst (Upload_Upload (mock_remote\<lparr>createAlbum := \<lambda>u s name. Inl (Error ''EOF'')\<rparr>)
                  mock_upload album_world) =
           Return (res, Some (Error ''EOF'')))"
  using Upload_error_propagation [of "mock_remote\<lparr>requestUploadURL := \<lambda>u s. Inl (Error ''EOF'')\<rparr>"
               mock_upload album_world "Error ''EOF''"]
        Upload_error_propagation [of "mock_remote\<lparr>uploadFile := \<lambda>u s. Inl (Error ''EOF'')\<rparr>"
               mock_upload album_world "Error ''EOF''" "''https://photos.example/upload/1''"]
        Upload_error_propagation [of "mock_remote\<lparr>enablePhoto := \<lambda>u s token. Inl (Error ''EOF'')\<rparr>"
               mock_upload album_world "Error ''EOF''" "''https://photos.example/upload/1''"
               "''token-1''"]
        Upload_error_propagation [of "mock_remote\<lparr>createAlbum := \<lambda>u s name. Inl (Error ''EOF'')\<rparr>"
               mock_upload album_world "Error ''EOF''" "''https://photos.example/upload/1''"
               "''token-1''" "''https://lh3.googleusercontent.com/AbC-123_xyz''" "''move-1''"
               "''AbC-123_xyz''" "photo_options\<lparr>AlbumName := ''Holidays''\<rparr>"]
        mock_extraction
  by (simp add: mock_remote_def mock_upload_def album_world_def deref_def)

end
